theory Spec2Isabelle
  imports Main "HOL-Library.Word"
begin

unbundle bit_operations_syntax

section \<open>Data model (src/types, as used by the services and the scanning screen)\<close>

type_synonym byte = "8 word"

text \<open>
  Text that passes through \<open>String.prototype.trim\<close> (the session name typed into the
  save dialog, and with it the name of a session) is kept as its sequence of UTF-16 code
  units, so that every character the text field can deliver is a value of the model.
\<close>

type_synonym code_unit = "16 word"

type_synonym text16 = "code_unit list"

text \<open>Errors a promise can reject with or a statement can throw.\<close>

datatype js_error = TypeError | StorageError | ScanError

text \<open>The result object of \<open>BleService.parseIBeaconData\<close>.\<close>

record beaconData =
  uuid :: string
  major :: int
  minor :: int
  rssi :: int

text \<open>
  The discovery event of the radio layer. \<open>peripheral.advertising\<close>,
  \<open>advertising.manufacturerData\<close> and \<open>peripheral.rssi\<close> may each be absent
  (\<open>undefined\<close>); the peripheral itself may be \<open>null\<close>, which is the \<open>None\<close> of the
  argument of \<open>parseIBeaconData\<close>.
\<close>

record advertising =
  manufacturerData :: "byte list option"

record peripheral =
  advertising :: "advertising option"
  peripheral_rssi :: "int option"

text \<open>\<open>Settings\<close>, \<open>BeaconRead\<close> and \<open>Session\<close> of src/types.\<close>

record settings =
  targetUuid :: string
  rssiThreshold :: int

record beaconRead =
  read_id :: string
  read_uuid :: string
  read_major :: int
  read_minor :: int
  read_rssi :: int
  timestamp :: int

record session =
  session_id :: string
  name :: text16
  startTime :: int
  endTime :: "int option"
  beaconReads :: "beaconRead list"

section \<open>Strings\<close>

text \<open>
  UUID strings, identifiers and the program's own messages are lists of 8-bit characters.
  \<open>toUpperCase\<close> and \<open>toLowerCase\<close> act on the ASCII letters, which are the only
  cased characters a UUID string can hold.
\<close>

definition upper_char :: "char \<Rightarrow> char" where
  "upper_char c =
     (case map_of (zip ''abcdefghijklmnopqrstuvwxyz'' ''ABCDEFGHIJKLMNOPQRSTUVWXYZ'') c of
        Some u \<Rightarrow> u
      | None \<Rightarrow> c)"

definition lower_char :: "char \<Rightarrow> char" where
  "lower_char c =
     (case map_of (zip ''ABCDEFGHIJKLMNOPQRSTUVWXYZ'' ''abcdefghijklmnopqrstuvwxyz'') c of
        Some l \<Rightarrow> l
      | None \<Rightarrow> c)"

definition toUpperCase :: "string \<Rightarrow> string" where
  "toUpperCase s = map upper_char s"

definition toLowerCase :: "string \<Rightarrow> string" where
  "toLowerCase s = map lower_char s"

text \<open>The code units of a text written in ASCII, as the program's string literals are.\<close>

definition utf16 :: "string \<Rightarrow> text16" where
  "utf16 s = map (\<lambda>c. word_of_nat (of_char c)) s"

text \<open>
  \<open>String.prototype.trim\<close> removes white space and line terminators at both ends. These
  are, in ECMAScript: U+0009 (tab), U+000B (vertical tab), U+000C (form feed), U+FEFF
  (zero width no-break space) and the space separators U+0020, U+00A0, U+1680,
  U+2000 to U+200A, U+202F, U+205F and U+3000; and the line terminators U+000A, U+000D,
  U+2028 and U+2029. All of them are single code units.
\<close>

definition is_space :: "code_unit \<Rightarrow> bool" where
  "is_space c =
     (c \<in> set [0x0009, 0x000A, 0x000B, 0x000C, 0x000D, 0x0020, 0x00A0, 0x1680,
                0x2000, 0x2001, 0x2002, 0x2003, 0x2004, 0x2005, 0x2006, 0x2007,
                0x2008, 0x2009, 0x200A, 0x2028, 0x2029, 0x202F, 0x205F, 0x3000,
                0xFEFF])"

definition trim :: "text16 \<Rightarrow> text16" where
  "trim s = rev (dropWhile is_space (rev (dropWhile is_space s)))"

text \<open>\<open>Number.prototype.toString(radix)\<close> on a non-negative integer, digits 0-9a-z.\<close>

definition digit_char :: "nat \<Rightarrow> char" where
  "digit_char d = ''0123456789abcdefghijklmnopqrstuvwxyz'' ! d"

function toStringRadix :: "nat \<Rightarrow> nat \<Rightarrow> string" where
  "toStringRadix b n =
     (if b < 2 \<or> n < b then [digit_char n]
      else toStringRadix b (n div b) @ [digit_char (n mod b)])"
  by pat_completeness auto
termination
  by (relation "measure (\<lambda>(b, n). n)") auto

declare toStringRadix.simps [simp del]

text \<open>An integer inside a template string: decimal, with a sign when negative.\<close>

definition numberToString :: "int \<Rightarrow> string" where
  "numberToString n =
     (if n < 0 then ''-'' @ toStringRadix 10 (nat (- n)) else toStringRadix 10 (nat n))"

text \<open>\<open>String.prototype.padStart(targetLength, padString)\<close> with a one-character pad.\<close>

definition padStart :: "nat \<Rightarrow> char \<Rightarrow> string \<Rightarrow> string" where
  "padStart n c s = replicate (n - length s) c @ s"

text \<open>
  \<open>String.prototype.substring(start, end)\<close>: both indices are clamped to the length and
  swapped when \<open>start > end\<close>.
\<close>

definition substring :: "nat \<Rightarrow> nat \<Rightarrow> string \<Rightarrow> string" where
  "substring i j s =
     (let a = min i (length s); b = min j (length s);
          lo = min a b; hi = max a b
      in take (hi - lo) (drop lo s))"

text \<open>\<open>Array.prototype.join(sep)\<close> on strings.\<close>

fun join :: "string \<Rightarrow> string list \<Rightarrow> string" where
  "join sep [] = []"
| "join sep [x] = x"
| "join sep (x # y # ys) = x @ sep @ join sep (y # ys)"

text \<open>\<open>Array.prototype.slice(start, end)\<close> with non-negative indices.\<close>

definition slice :: "nat \<Rightarrow> nat \<Rightarrow> 'a list \<Rightarrow> 'a list" where
  "slice i j xs = take (j - i) (drop i xs)"

section \<open>Advertisement decoder (BleService.parseIBeaconData, bytesToUUID)\<close>

definition bytesToUUID :: "byte list \<Rightarrow> string" where
  "bytesToUUID bytes =
     (let hex = concat (map (\<lambda>b. padStart 2 (CHR ''0'') (toStringRadix 16 (unat b))) bytes)
      in toUpperCase (join ''-''
           [substring 0 8 hex, substring 8 12 hex, substring 12 16 hex,
            substring 16 20 hex, substring 20 32 hex]))"

text \<open>
  \<open>(hi << 8) | lo\<close>: both operands are converted to 32-bit integers, the result is read
  back as a signed 32-bit integer.
\<close>

definition shl8_or :: "byte \<Rightarrow> byte \<Rightarrow> int" where
  "shl8_or hi lo = sint ((push_bit 8 (ucast hi :: 32 word)) OR (ucast lo :: 32 word))"

text \<open>
  The body of the \<open>try\<close> block. Reading \<open>peripheral.advertising\<close> of a \<open>null\<close> peripheral
  throws; every other step is defined on all inputs. The indices 0..23 are read only
  after the length check. The two \<open>||\<close> tests evaluate left to right and stop at the
  first operand that holds, which is the chain of \<open>if\<close>s below.
\<close>

definition parseIBeaconData_try :: "peripheral option \<Rightarrow> js_error + beaconData option" where
  "parseIBeaconData_try p =
     (case p of
        None \<Rightarrow> Inl TypeError
      | Some per \<Rightarrow>
          (case (case advertising per of None \<Rightarrow> None | Some adv \<Rightarrow> manufacturerData adv) of
             None \<Rightarrow> Inr None
           | Some md \<Rightarrow>
               if length md < 25 then Inr None
               else if md ! 0 \<noteq> 0x4C then Inr None
               else if md ! 1 \<noteq> 0x00 then Inr None
               else if md ! 2 \<noteq> 0x02 then Inr None
               else if md ! 3 \<noteq> 0x15 then Inr None
               else
                 let uuidBytes = slice 4 20 md;
                     u = bytesToUUID uuidBytes;
                     mj = shl8_or (md ! 20) (md ! 21);
                     mn = shl8_or (md ! 22) (md ! 23)
                 in Inr (Some \<lparr>uuid = u, major = mj, minor = mn,
                      rssi = (case peripheral_rssi per of None \<Rightarrow> 0 | Some r \<Rightarrow> r)\<rparr>)))"

text \<open>The \<open>catch\<close> logs the error and returns \<open>null\<close>.\<close>

definition parseIBeaconData :: "peripheral option \<Rightarrow> beaconData option" where
  "parseIBeaconData p = (case parseIBeaconData_try p of Inl e \<Rightarrow> None | Inr r \<Rightarrow> r)"

text \<open>
  The rendering the specification words describe: every byte as two uppercase hexadecimal
  digits, in groups of 4, 2, 2, 2 and 6 bytes separated by hyphens. It is compared with
  \<open>bytesToUUID\<close> below.
\<close>

definition hex_pair_upper :: "byte \<Rightarrow> string" where
  "hex_pair_upper b =
     [''0123456789ABCDEF'' ! (unat b div 16), ''0123456789ABCDEF'' ! (unat b mod 16)]"

definition hex_upper :: "byte list \<Rightarrow> string" where
  "hex_upper bs = concat (map hex_pair_upper bs)"

definition canonical_uuid :: "byte list \<Rightarrow> string" where
  "canonical_uuid bs =
     hex_upper (take 4 bs) @ ''-'' @ hex_upper (take 2 (drop 4 bs)) @ ''-'' @
     hex_upper (take 2 (drop 6 bs)) @ ''-'' @ hex_upper (take 2 (drop 8 bs)) @ ''-'' @
     hex_upper (take 6 (drop 10 bs))"

section \<open>UUID validation (utils/uuidUtils.isValidUUID)\<close>

text \<open>
  The regular expression
  \<^verbatim>\<open>/^[0-9A-F]{8}-[0-9A-F]{4}-[0-9A-F]{4}-[0-9A-F]{4}-[0-9A-F]{12}$/i\<close>.
\<close>

definition is_hex_char :: "char \<Rightarrow> bool" where
  "is_hex_char c = (c \<in> set ''0123456789ABCDEFabcdef'')"

definition isValidUUID :: "string \<Rightarrow> bool" where
  "isValidUUID u =
     (length u = 36 \<and>
      list_all is_hex_char (take 8 u) \<and> u ! 8 = CHR ''-'' \<and>
      list_all is_hex_char (take 4 (drop 9 u)) \<and> u ! 13 = CHR ''-'' \<and>
      list_all is_hex_char (take 4 (drop 14 u)) \<and> u ! 18 = CHR ''-'' \<and>
      list_all is_hex_char (take 4 (drop 19 u)) \<and> u ! 23 = CHR ''-'' \<and>
      list_all is_hex_char (take 12 (drop 24 u)))"

section \<open>Persistence (StorageService over AsyncStorage)\<close>

text \<open>
  The three keys of \<open>STORAGE_KEYS\<close>. Each item is kept as the value its JSON text
  parses to; an absent item is \<open>None\<close>.
\<close>

datatype storage_key = SETTINGS | SESSIONS | CURRENT_SESSION

datatype storage_op = GetItem | SetItem | RemoveItem

record asyncStorage =
  settings_item :: "settings option"
  sessions_item :: "session list option"
  current_item :: "session option"

text \<open>
  What an operation reads from outside: the values of successive \<open>Date.now()\<close> calls
  (\<open>clock e k\<close> is the k-th one of the operation), the text of
  \<open>new Date().toLocaleString()\<close>, the text of
  \<open>Math.random().toString(36).substr(2, 9)\<close>, which AsyncStorage calls reject, and
  whether \<open>BleManager.scan\<close> rejects.
\<close>

record env =
  clock :: "nat \<Rightarrow> int"
  localeString :: text16
  random36 :: string
  rejects :: "storage_op \<Rightarrow> storage_key \<Rightarrow> bool"
  scanRejects :: bool

definition getSettings :: "env \<Rightarrow> asyncStorage \<Rightarrow> settings" where
  "getSettings e st =
     (if rejects e GetItem SETTINGS
      then \<lparr>targetUuid = ''E101B392ADA32224231605EF58774925'', rssiThreshold = - 70\<rparr>
      else (case settings_item st of
              Some s \<Rightarrow> s
            | None \<Rightarrow> \<lparr>targetUuid = ''E101B392ADA32224231605EF58774925'', rssiThreshold = - 70\<rparr>))"

definition getSessions :: "env \<Rightarrow> asyncStorage \<Rightarrow> session list" where
  "getSessions e st =
     (if rejects e GetItem SESSIONS then []
      else (case sessions_item st of Some l \<Rightarrow> l | None \<Rightarrow> []))"

text \<open>\<open>Array.prototype.findIndex\<close>; \<open>None\<close> is the result -1.\<close>

fun findIndex :: "('a \<Rightarrow> bool) \<Rightarrow> 'a list \<Rightarrow> nat option" where
  "findIndex P [] = None"
| "findIndex P (x # xs) = (if P x then Some 0 else map_option Suc (findIndex P xs))"

definition storage_saveSession :: "env \<Rightarrow> session \<Rightarrow> asyncStorage \<Rightarrow> js_error + asyncStorage" where
  "storage_saveSession e s st =
     (let sessions = getSessions e st;
          sessions' = (case findIndex (\<lambda>x. session_id x = session_id s) sessions of
                         Some i \<Rightarrow> sessions[i := s]
                       | None \<Rightarrow> sessions @ [s])
      in if rejects e SetItem SESSIONS then Inl StorageError
         else Inr (st\<lparr>sessions_item := Some sessions'\<rparr>))"

definition getCurrentSession :: "env \<Rightarrow> asyncStorage \<Rightarrow> session option" where
  "getCurrentSession e st =
     (if rejects e GetItem CURRENT_SESSION then None else current_item st)"

definition saveCurrentSession :: "env \<Rightarrow> session option \<Rightarrow> asyncStorage \<Rightarrow> js_error + asyncStorage" where
  "saveCurrentSession e so st =
     (case so of
        Some s \<Rightarrow>
          if rejects e SetItem CURRENT_SESSION then Inl StorageError
          else Inr (st\<lparr>current_item := Some s\<rparr>)
      | None \<Rightarrow>
          if rejects e RemoveItem CURRENT_SESSION then Inl StorageError
          else Inr (st\<lparr>current_item := None\<rparr>))"

definition addBeaconReadToCurrentSession ::
  "env \<Rightarrow> beaconRead \<Rightarrow> asyncStorage \<Rightarrow> js_error + asyncStorage" where
  "addBeaconReadToCurrentSession e r st =
     (case getCurrentSession e st of
        Some currentSession \<Rightarrow>
          saveCurrentSession e
            (Some (currentSession\<lparr>beaconReads := beaconReads currentSession @ [r]\<rparr>)) st
      | None \<Rightarrow> Inr st)"

section \<open>Application state\<close>

text \<open>
  The persisted items, the fields of the \<open>BleService\<close> singleton (\<open>ble_\<close>), the React
  state of \<open>ScanningScreen\<close> (its \<open>beaconReads\<close> list is \<open>ui_beaconReads\<close>) and the
  alerts shown so far, oldest first. The only callback the screen ever registers
  prepends the read to \<open>ui_beaconReads\<close>, so \<open>ble_onBeaconFound\<close> records whether it
  is registered.
\<close>

record app =
  storage :: asyncStorage
  ble_isScanning :: bool
  ble_settings :: "settings option"
  ble_onBeaconFound :: bool
  ble_listeners :: nat
  isScanning :: bool
  currentSession :: "session option"
  ui_beaconReads :: "beaconRead list"
  bluetoothState :: string
  showSaveModal :: bool
  sessionName :: text16
  alerts :: "(string \<times> string) list"

definition alert :: "string \<Rightarrow> string \<Rightarrow> app \<Rightarrow> app" where
  "alert title msg a = a\<lparr>alerts := alerts a @ [(title, msg)]\<rparr>"

section \<open>Filter and recording (BleService.handlePeripheralDiscovered)\<close>

text \<open>
  An error thrown by \<open>addBeaconReadToCurrentSession\<close> is caught and logged: the callback
  is then not invoked.
\<close>

definition handlePeripheralDiscovered :: "env \<Rightarrow> peripheral option \<Rightarrow> app \<Rightarrow> app" where
  "handlePeripheralDiscovered e p a =
     (case ble_settings a of
        None \<Rightarrow> a
      | Some s \<Rightarrow>
          if \<not> ble_onBeaconFound a then a
          else (case parseIBeaconData p of
                  None \<Rightarrow> a
                | Some bd \<Rightarrow>
                    if toLowerCase (uuid bd) \<noteq> toLowerCase (targetUuid s) then a
                    else if rssi bd < rssiThreshold s then a
                    else
                      let r = \<lparr>read_id = numberToString (clock e 0) @ ''_'' @ random36 e,
                               read_uuid = uuid bd, read_major = major bd,
                               read_minor = minor bd, read_rssi = rssi bd,
                               timestamp = clock e 1\<rparr>
                      in (case addBeaconReadToCurrentSession e r (storage a) of
                            Inl err \<Rightarrow> a
                          | Inr st' \<Rightarrow>
                              a\<lparr>storage := st', ui_beaconReads := r # ui_beaconReads a\<rparr>)))"

section \<open>Session lifecycle (BleService.startScanning and ScanningScreen)\<close>

text \<open>The second component is the error the promise rejects with, if any.\<close>

definition ble_startScanning :: "env \<Rightarrow> app \<Rightarrow> app \<times> js_error option" where
  "ble_startScanning e a =
     (if ble_isScanning a then (a, None)
      else
        let a1 = a\<lparr>ble_settings := Some (getSettings e (storage a))\<rparr>
        in if scanRejects e then (a1\<lparr>ble_isScanning := False\<rparr>, Some ScanError)
           else (a1\<lparr>ble_isScanning := True, ble_listeners := Suc (ble_listeners a1)\<rparr>, None))"

definition startScanning :: "env \<Rightarrow> app \<Rightarrow> app" where
  "startScanning e a =
     (if bluetoothState a \<noteq> ''on''
      then alert ''Bluetooth Required'' ''Please enable Bluetooth first'' a
      else
        let (a1, err1) =
              (case currentSession a of
                 Some cs \<Rightarrow> (a, None)
               | None \<Rightarrow>
                   let newSession = \<lparr>session_id = ''session_'' @ numberToString (clock e 0),
                                     name = utf16 ''Session '' @ localeString e,
                                     startTime = clock e 1, endTime = None,
                                     beaconReads = []\<rparr>;
                       a' = a\<lparr>currentSession := Some newSession\<rparr>
                   in (case saveCurrentSession e (Some newSession) (storage a') of
                         Inl err \<Rightarrow> (a', Some err)
                       | Inr st' \<Rightarrow> (a'\<lparr>storage := st'\<rparr>, None)))
        in (case err1 of
              Some err \<Rightarrow> alert ''Error'' ''Failed to start scanning'' a1
            | None \<Rightarrow>
                (case ble_startScanning e a1 of
                   (a2, Some err) \<Rightarrow> alert ''Error'' ''Failed to start scanning'' a2
                 | (a2, None) \<Rightarrow> a2\<lparr>isScanning := True\<rparr>)))"

text \<open>The text input of the save dialog (\<open>onChangeText={setSessionName}\<close>).\<close>

definition setSessionName :: "text16 \<Rightarrow> app \<Rightarrow> app" where
  "setSessionName n a = a\<lparr>sessionName := n\<rparr>"

definition saveSession :: "env \<Rightarrow> app \<Rightarrow> app" where
  "saveSession e a =
     (if trim (sessionName a) = []
      then alert ''Error'' ''Please enter a session name'' a
      else (case currentSession a of
              None \<Rightarrow> alert ''Error'' ''No active session to save'' a
            | Some cs \<Rightarrow>
                let sessionToSave = cs\<lparr>name := trim (sessionName a),
                                       endTime := Some (clock e 0)\<rparr>
                in (case storage_saveSession e sessionToSave (storage a) of
                      Inl err \<Rightarrow> alert ''Error'' ''Failed to save session'' a
                    | Inr st1 \<Rightarrow>
                        (case saveCurrentSession e None st1 of
                           Inl err \<Rightarrow>
                             alert ''Error'' ''Failed to save session'' (a\<lparr>storage := st1\<rparr>)
                         | Inr st2 \<Rightarrow>
                             alert ''Success'' ''Session saved successfully''
                               (a\<lparr>storage := st2, currentSession := None,
                                  ui_beaconReads := [], showSaveModal := False,
                                  sessionName := []\<rparr>)))))"

text \<open>The \<open>onPress\<close> of the confirming button of \<open>clearCurrentSession\<close>.\<close>

definition clearCurrentSession :: "env \<Rightarrow> app \<Rightarrow> app" where
  "clearCurrentSession e a =
     (case saveCurrentSession e None (storage a) of
        Inl err \<Rightarrow> alert ''Error'' ''Failed to clear session'' a
      | Inr st' \<Rightarrow> a\<lparr>storage := st', currentSession := None, ui_beaconReads := []\<rparr>)"

section \<open>Overlapping calls of addBeaconReadToCurrentSession\<close>

text \<open>
  One call touches the store twice, with an \<open>await\<close> before each access: it reads the
  current session (\<open>getItem\<close>), and on resumption pushes the read onto the copy it got
  and writes the copy back (\<open>setItem\<close>). Between the two accesses other calls may run.
  \<open>record_step\<close> advances one call by one access; a schedule names, access by access,
  the call that runs next.
\<close>

datatype record_pc = Pending | Fetched "session option" | Finished

fun record_step :: "env \<Rightarrow> beaconRead \<Rightarrow> record_pc \<Rightarrow> asyncStorage \<Rightarrow> record_pc \<times> asyncStorage" where
  "record_step e r Pending st = (Fetched (getCurrentSession e st), st)"
| "record_step e r (Fetched None) st = (Finished, st)"
| "record_step e r (Fetched (Some cs)) st =
     (case saveCurrentSession e (Some (cs\<lparr>beaconReads := beaconReads cs @ [r]\<rparr>)) st of
        Inl err \<Rightarrow> (Finished, st)
      | Inr st' \<Rightarrow> (Finished, st'))"
| "record_step e r Finished st = (Finished, st)"

fun run_schedule ::
  "env \<Rightarrow> beaconRead list \<Rightarrow> nat list \<Rightarrow> record_pc list \<times> asyncStorage \<Rightarrow>
   record_pc list \<times> asyncStorage" where
  "run_schedule e rs [] c = c"
| "run_schedule e rs (i # sched) (pcs, st) =
     (if i < length rs \<and> i < length pcs
      then (case record_step e (rs ! i) (pcs ! i) st of
              (pc', st') \<Rightarrow> run_schedule e rs sched (pcs[i := pc'], st'))
      else run_schedule e rs sched (pcs, st))"

text \<open>The schedule in which call 0 finishes before call 1 starts, and so on.\<close>

definition sequential :: "nat \<Rightarrow> nat list" where
  "sequential k = concat (map (\<lambda>i. [i, i]) [0..<k])"

section \<open>Fixtures\<close>

definition fixture_frame :: "byte list" where
  "fixture_frame =
     [0x4C, 0x00, 0x02, 0x15,
      0xE1, 0x01, 0xB3, 0x92, 0xAD, 0xA3, 0x22, 0x24,
      0x23, 0x16, 0x05, 0xEF, 0x58, 0x77, 0x49, 0x25,
      0x01, 0x02, 0xFF, 0xFE, 0xC5]"

definition fixture_peripheral :: "int \<Rightarrow> peripheral option" where
  "fixture_peripheral r =
     Some \<lparr>advertising = Some \<lparr>manufacturerData = Some fixture_frame\<rparr>,
           peripheral_rssi = Some r\<rparr>"

definition empty_storage :: asyncStorage where
  "empty_storage = \<lparr>settings_item = None, sessions_item = None, current_item = None\<rparr>"

text \<open>A fault-free environment whose clock reads \<open>t\<close>, then \<open>t + 1\<close>, and so on.\<close>

definition quiet_env :: "int \<Rightarrow> env" where
  "quiet_env t =
     \<lparr>clock = (\<lambda>k. t + int k), localeString = utf16 ''1/1/2025, 12:00:00 PM'',
      random36 = ''k3j9x0a1b'', rejects = (\<lambda>opn key. False), scanRejects = False\<rparr>"

text \<open>
  The screen after \<open>initializeApp\<close> on a device with Bluetooth on and the given store:
  callback registered, no session in memory when none is stored.
\<close>

definition initial_app :: "asyncStorage \<Rightarrow> app" where
  "initial_app st =
     \<lparr>storage = st, ble_isScanning = False, ble_settings = None,
      ble_onBeaconFound = True, ble_listeners = 0, isScanning = False,
      currentSession = current_item st,
      ui_beaconReads = (case current_item st of None \<Rightarrow> [] | Some s \<Rightarrow> beaconReads s),
      bluetoothState = ''on'', showSaveModal = False, sessionName = [],
      alerts = []\<rparr>"

text \<open>The fixture frame cut to 24 bytes.\<close>

definition truncated_peripheral :: "peripheral option" where
  "truncated_peripheral =
     Some \<lparr>advertising = Some \<lparr>manufacturerData = Some (take 24 fixture_frame)\<rparr>,
           peripheral_rssi = Some (- 60)\<rparr>"

text \<open>
  The application once a scan has loaded criteria that name the fixture's UUID, in
  lower case, with threshold -70.
\<close>

definition scanning_app :: app where
  "scanning_app =
     (initial_app empty_storage)
       \<lparr>ble_settings := Some \<lparr>targetUuid = ''e101b392-ada3-2224-2316-05ef58774925'',
                               rssiThreshold = - 70\<rparr>\<rparr>"

definition read_a :: beaconRead where
  "read_a = \<lparr>read_id = ''2000_aaaaaaaaa'', read_uuid = ''E101B392-ADA3-2224-2316-05EF58774925'',
             read_major = 1, read_minor = 1, read_rssi = - 60, timestamp = 2000\<rparr>"

definition read_b :: beaconRead where
  "read_b = \<lparr>read_id = ''2001_bbbbbbbbb'', read_uuid = ''E101B392-ADA3-2224-2316-05EF58774925'',
             read_major = 1, read_minor = 2, read_rssi = - 55, timestamp = 2001\<rparr>"

definition active_session :: session where
  "active_session = \<lparr>session_id = ''session_1000'', name = utf16 ''Session 1/1/2025, 12:00:00 PM'',
                     startTime = 1001, endTime = None, beaconReads = []\<rparr>"

definition active_storage :: asyncStorage where
  "active_storage = empty_storage\<lparr>current_item := Some active_session\<rparr>"

text \<open>An environment in which writing the current session is rejected.\<close>

definition failing_env :: "int \<Rightarrow> env" where
  "failing_env t =
     (quiet_env t)\<lparr>rejects := (\<lambda>opn key. opn = SetItem \<and> key = CURRENT_SESSION)\<rparr>"

text \<open>A store whose settings name the fixture's UUID in canonical form.\<close>

definition configured_storage :: asyncStorage where
  "configured_storage =
     empty_storage\<lparr>settings_item :=
       Some \<lparr>targetUuid = ''E101B392-ADA3-2224-2316-05EF58774925'', rssiThreshold = - 70\<rparr>\<rparr>"

section \<open>Decoder: the integer fields\<close>

lemma shifted_high_byte_disjoint:
  "push_bit 8 (ucast (hi :: byte) :: 32 word) AND (ucast (lo :: byte) :: 32 word) = 0"
  by (auto simp: bit_eq_iff bit_simps dest: bit_imp_le_length)

lemma shifted_or_as_word_of_int:
  "push_bit 8 (ucast (hi :: byte) :: 32 word) OR (ucast (lo :: byte) :: 32 word)
     = word_of_int (256 * uint hi + uint lo)"
proof -
  have "push_bit 8 (ucast hi :: 32 word) OR (ucast lo :: 32 word)
          = push_bit 8 (ucast hi :: 32 word) + (ucast lo :: 32 word)"
    by (rule disjunctive_add_eq_or [OF shifted_high_byte_disjoint, symmetric])
  also have "\<dots> = word_of_int (256 * uint hi + uint lo)"
    by (simp add: push_bit_eq_mult)
  finally show ?thesis .
qed

lemma sint32_word_of_int: "sint (word_of_int k :: 32 word) = signed_take_bit 31 k"
  by (simp add: sint_sbintrunc')

lemma shl8_or_big_endian: "shl8_or hi lo = 256 * uint hi + uint lo"
proof -
  have range: "0 \<le> uint hi" "uint hi < 256" "0 \<le> uint lo" "uint lo < 256"
    using uint_lt2p [of hi] uint_lt2p [of lo] by simp_all
  have p31: "(2 :: int) ^ 31 = 2147483648" by simp
  have "signed_take_bit 31 (256 * uint hi + uint lo) = 256 * uint hi + uint lo"
    by (rule signed_take_bit_int_eq_self) (use range in \<open>unfold p31, linarith+\<close>)
  then show ?thesis
    unfolding shl8_or_def shifted_or_as_word_of_int sint32_word_of_int .
qed

lemma shl8_or_range: "0 \<le> shl8_or hi lo \<and> shl8_or hi lo < 65536"
proof -
  have "0 \<le> uint hi" "uint hi < 256" "0 \<le> uint lo" "uint lo < 256"
    using uint_lt2p [of hi] uint_lt2p [of lo] by simp_all
  then show ?thesis unfolding shl8_or_big_endian by linarith
qed

section \<open>Decoder: the UUID text\<close>

lemma toStringRadix_16_byte:
  "n < 256 \<Longrightarrow> toStringRadix 16 n =
     (if n < 16 then [digit_char n] else [digit_char (n div 16), digit_char (n mod 16)])"
proof (cases "n < 16")
  case True
  then show ?thesis by (subst toStringRadix.simps) simp
next
  case False
  assume "n < 256"
  then have d: "n div 16 < 16" by simp
  have "toStringRadix 16 n = toStringRadix 16 (n div 16) @ [digit_char (n mod 16)]"
    by (subst toStringRadix.simps) (use False in simp)
  moreover have "toStringRadix 16 (n div 16) = [digit_char (n div 16)]"
    by (subst toStringRadix.simps) (use d in simp)
  ultimately show ?thesis using False by simp
qed

lemma upper_digit_char:
  assumes "d < 16"
  shows "upper_char (digit_char d) = ''0123456789ABCDEF'' ! d"
proof -
  from assms have "d = 0 \<or> d = 1 \<or> d = 2 \<or> d = 3 \<or> d = 4 \<or> d = 5 \<or> d = 6 \<or> d = 7 \<or>
      d = 8 \<or> d = 9 \<or> d = 10 \<or> d = 11 \<or> d = 12 \<or> d = 13 \<or> d = 14 \<or> d = 15"
    by arith
  then show ?thesis
    by (elim disjE) (simp_all add: upper_char_def digit_char_def)
qed

lemma upper_char_zero: "upper_char (CHR ''0'') = CHR ''0''"
  by (simp add: upper_char_def)

lemma upper_char_hyphen: "upper_char (CHR ''-'') = CHR ''-''"
  by (simp add: upper_char_def)

lemma hex_byte_length:
  "length (padStart 2 (CHR ''0'') (toStringRadix 16 (unat (b :: byte)))) = 2"
proof -
  have "unat b < 256" using unsigned_less [of b] by simp
  then show ?thesis by (simp add: toStringRadix_16_byte padStart_def)
qed

lemma hex_byte_upper:
  "map upper_char (padStart 2 (CHR ''0'') (toStringRadix 16 (unat (b :: byte))))
     = hex_pair_upper b"
proof -
  have lt: "unat b < 256" using unsigned_less [of b] by simp
  show ?thesis
  proof (cases "unat b < 16")
    case True
    then show ?thesis
      by (simp add: toStringRadix_16_byte [OF lt] padStart_def hex_pair_upper_def
          upper_digit_char upper_char_zero)
  next
    case False
    moreover from lt have "unat b div 16 < 16" by simp
    ultimately show ?thesis
      by (simp add: toStringRadix_16_byte [OF lt] padStart_def hex_pair_upper_def
          upper_digit_char)
  qed
qed

lemma take_concat_chunks:
  "(\<And>x. length (f x) = k) \<Longrightarrow> take (k * n) (concat (map f xs)) = concat (map f (take n xs))"
proof (induction xs arbitrary: n)
  case Nil
  then show ?case by simp
next
  case (Cons x xs)
  show ?case
  proof (cases n)
    case 0
    then show ?thesis by simp
  next
    case (Suc m)
    then show ?thesis using Cons by simp
  qed
qed

lemma drop_concat_chunks:
  "(\<And>x. length (f x) = k) \<Longrightarrow> drop (k * n) (concat (map f xs)) = concat (map f (drop n xs))"
proof (induction xs arbitrary: n)
  case Nil
  then show ?case by simp
next
  case (Cons x xs)
  show ?case
  proof (cases n)
    case 0
    then show ?thesis by simp
  next
    case (Suc m)
    then show ?thesis using Cons by simp
  qed
qed

lemma length_concat_chunks:
  "(\<And>x. length (f x) = k) \<Longrightarrow> length (concat (map f xs)) = k * length xs"
  by (induction xs) simp_all

lemma substring_take_drop:
  "i \<le> j \<Longrightarrow> j \<le> length s \<Longrightarrow> substring i j s = take (j - i) (drop i s)"
  by (simp add: substring_def Let_def min_def max_def)

lemma bytesToUUID_canonical:
  assumes "length bs = 16"
  shows "bytesToUUID bs = canonical_uuid bs"
proof -
  define f where "f = (\<lambda>b :: byte. padStart 2 (CHR ''0'') (toStringRadix 16 (unat b)))"
  define hex where "hex = concat (map f bs)"
  have len: "\<And>x. length (f x) = 2" by (simp add: f_def hex_byte_length)
  have hl: "length hex = 32"
    using length_concat_chunks [of f 2 bs, OF len] assms by (simp add: hex_def)
  have up: "map upper_char (concat (map f xs)) = hex_upper xs" for xs
    by (induction xs) (simp_all add: hex_upper_def f_def hex_byte_upper)
  have seg: "map upper_char (take (2 * m) (drop (2 * n) hex)) = hex_upper (take m (drop n bs))"
    for m n
    unfolding hex_def drop_concat_chunks [of f 2, OF len] take_concat_chunks [of f 2, OF len]
    by (rule up)
  have s1: "substring 0 8 hex = take (2 * 4) (drop (2 * 0) hex)"
    and s2: "substring 8 12 hex = take (2 * 2) (drop (2 * 4) hex)"
    and s3: "substring 12 16 hex = take (2 * 2) (drop (2 * 6) hex)"
    and s4: "substring 16 20 hex = take (2 * 2) (drop (2 * 8) hex)"
    and s5: "substring 20 32 hex = take (2 * 6) (drop (2 * 10) hex)"
    using hl by (simp_all add: substring_take_drop)
  have "bytesToUUID bs = toUpperCase (join ''-''
           [substring 0 8 hex, substring 8 12 hex, substring 12 16 hex,
            substring 16 20 hex, substring 20 32 hex])"
    by (simp add: bytesToUUID_def hex_def f_def Let_def)
  also have "\<dots> = canonical_uuid bs"
    unfolding s1 s2 s3 s4 s5
    by (simp only: toUpperCase_def canonical_uuid_def join.simps map_append seg
        list.map upper_char_hyphen drop_0)
  finally show ?thesis .
qed

lemma length_hex_upper: "length (hex_upper bs) = 2 * length bs"
  by (simp add: hex_upper_def length_concat_chunks [of hex_pair_upper 2] hex_pair_upper_def)

lemma length_canonical_uuid: "length bs = 16 \<Longrightarrow> length (canonical_uuid bs) = 36"
  by (simp add: canonical_uuid_def length_hex_upper)

section \<open>Decoder: the frame checks\<close>

lemma frame_prefix:
  assumes "4 \<le> length md"
  shows "take 2 md = [md ! 0, md ! 1]" and "take 2 (drop 2 md) = [md ! 2, md ! 3]"
proof -
  obtain x0 r0 where m0: "md = x0 # r0" using assms by (cases md) auto
  obtain x1 r1 where m1: "r0 = x1 # r1" using assms m0 by (cases r0) auto
  obtain x2 r2 where m2: "r1 = x2 # r2" using assms m0 m1 by (cases r1) auto
  obtain x3 r3 where m3: "r2 = x3 # r3" using assms m0 m1 m2 by (cases r2) auto
  show "take 2 md = [md ! 0, md ! 1]" and "take 2 (drop 2 md) = [md ! 2, md ! 3]"
    by (simp_all add: m0 m1 m2 m3 numeral_2_eq_2 numeral_3_eq_3)
qed

lemma parse_fields:
  "parseIBeaconData p = Some bd \<Longrightarrow>
     \<exists>per adv md. p = Some per \<and> advertising per = Some adv \<and> manufacturerData adv = Some md \<and>
        25 \<le> length md \<and> md ! 0 = 0x4C \<and> md ! 1 = 0x00 \<and> md ! 2 = 0x02 \<and> md ! 3 = 0x15 \<and>
        bd = \<lparr>uuid = bytesToUUID (slice 4 20 md), major = shl8_or (md ! 20) (md ! 21),
              minor = shl8_or (md ! 22) (md ! 23),
              rssi = (case peripheral_rssi per of None \<Rightarrow> 0 | Some r \<Rightarrow> r)\<rparr>"
  by (auto simp: parseIBeaconData_def parseIBeaconData_try_def Let_def
      split: option.splits if_splits)

lemma parse_fixture:
  "parseIBeaconData (fixture_peripheral r) =
     Some \<lparr>uuid = ''E101B392-ADA3-2224-2316-05EF58774925'', major = 258, minor = 65534,
           rssi = r\<rparr>"
proof -
  have u: "canonical_uuid (slice 4 20 fixture_frame) = ''E101B392-ADA3-2224-2316-05EF58774925''"
    by (simp add: fixture_frame_def slice_def canonical_uuid_def hex_upper_def
        hex_pair_upper_def)
  have l: "length (slice 4 20 fixture_frame) = 16"
    by (simp add: fixture_frame_def slice_def)
  have m: "shl8_or (fixture_frame ! 20) (fixture_frame ! 21) = 258"
    "shl8_or (fixture_frame ! 22) (fixture_frame ! 23) = 65534"
    by (simp_all add: shl8_or_big_endian fixture_frame_def)
  have c: "length fixture_frame = 25" "fixture_frame ! 0 = 0x4C" "fixture_frame ! 1 = 0"
    "fixture_frame ! 2 = 2" "fixture_frame ! 3 = 0x15"
    by (simp_all add: fixture_frame_def)
  have c1: "fixture_frame ! Suc 0 = 0" using c(3) by simp
  show ?thesis
    by (simp add: parseIBeaconData_def parseIBeaconData_try_def fixture_peripheral_def
        Let_def c c1 m bytesToUUID_canonical [OF l] u)
qed

section \<open>Claims about the decoder\<close>

text \<open>
  C3: a manufacturer-data sequence that is shorter than 25 bytes, or whose first two
  bytes are not 4C 00, or whose next two bytes are not 02 15, is not recognized: the
  decoder returns \<open>null\<close>.
\<close>

theorem C3_malformed_frame_not_recognized:
  assumes "advertising per = Some adv" and "manufacturerData adv = Some md"
    and "length md < 25 \<or> take 2 md \<noteq> [0x4C, 0x00] \<or> take 2 (drop 2 md) \<noteq> [0x02, 0x15]"
  shows "parseIBeaconData (Some per) = None"
proof (cases "length md < 25")
  case True
  then show ?thesis
    using assms(1,2) by (simp add: parseIBeaconData_def parseIBeaconData_try_def)
next
  case False
  then have "4 \<le> length md" by simp
  note pre = frame_prefix [OF this]
  from False assms(3) have "md ! 0 \<noteq> 0x4C \<or> md ! 1 \<noteq> 0x00 \<or> md ! 2 \<noteq> 0x02 \<or> md ! 3 \<noteq> 0x15"
    unfolding pre by auto
  then show ?thesis
    using assms(1,2) by (auto simp: parseIBeaconData_def parseIBeaconData_try_def)
qed

theorem C3_malformed_frame_not_recognized_witness:
  "parseIBeaconData (Some \<lparr>advertising = Some \<lparr>manufacturerData = Some (take 24 fixture_frame)\<rparr>,
       peripheral_rssi = Some (- 60)\<rparr>) = None \<and>
   parseIBeaconData (Some \<lparr>advertising = Some \<lparr>manufacturerData = Some (fixture_frame[1 := 0x01])\<rparr>,
       peripheral_rssi = Some (- 60)\<rparr>) = None \<and>
   parseIBeaconData (Some \<lparr>advertising = Some \<lparr>manufacturerData = Some (fixture_frame[3 := 0x16])\<rparr>,
       peripheral_rssi = Some (- 60)\<rparr>) = None"
proof -
  have a: "length (take 24 fixture_frame) < 25" by (simp add: fixture_frame_def)
  have b: "take 2 (fixture_frame[1 := 0x01]) \<noteq> [0x4C, 0x00]" by (simp add: fixture_frame_def)
  have c: "take 2 (drop 2 (fixture_frame[3 := 0x16])) \<noteq> [0x02, 0x15]"
    by (simp add: fixture_frame_def)
  show ?thesis
    using
      C3_malformed_frame_not_recognized [of "\<lparr>advertising = Some \<lparr>manufacturerData = Some (take 24 fixture_frame)\<rparr>, peripheral_rssi = Some (- 60)\<rparr>"
         "\<lparr>manufacturerData = Some (take 24 fixture_frame)\<rparr>" "take 24 fixture_frame"]
      C3_malformed_frame_not_recognized [of "\<lparr>advertising = Some \<lparr>manufacturerData = Some (fixture_frame[1 := 0x01])\<rparr>, peripheral_rssi = Some (- 60)\<rparr>"
         "\<lparr>manufacturerData = Some (fixture_frame[1 := 0x01])\<rparr>" "fixture_frame[1 := 0x01]"]
      C3_malformed_frame_not_recognized [of "\<lparr>advertising = Some \<lparr>manufacturerData = Some (fixture_frame[3 := 0x16])\<rparr>, peripheral_rssi = Some (- 60)\<rparr>"
         "\<lparr>manufacturerData = Some (fixture_frame[3 := 0x16])\<rparr>" "fixture_frame[3 := 0x16]"]
      a b c
    by simp
qed

text \<open>
  C4: a frame of at least 25 bytes that begins 4C 00 02 15 is decoded to an advertisement
  whose uuid is the 36-character uppercase hyphenated rendering (8-4-4-4-12 digits) of
  bytes 4-19, whose major is the unsigned big-endian 16-bit value of bytes 20-21 and
  whose minor is that of bytes 22-23; the signal strength is attached as supplied. The
  fixture bytes E1 01 B3 92 ... 49 25 give E101B392-ADA3-2224-2316-05EF58774925.
\<close>

theorem C4_well_formed_frame_decoded:
  assumes "25 \<le> length md" and "take 4 md = [0x4C, 0x00, 0x02, 0x15]"
  shows "parseIBeaconData (Some \<lparr>advertising = Some \<lparr>manufacturerData = Some md\<rparr>,
            peripheral_rssi = Some r\<rparr>)
         = Some \<lparr>uuid = canonical_uuid (take 16 (drop 4 md)),
                 major = 256 * uint (md ! 20) + uint (md ! 21),
                 minor = 256 * uint (md ! 22) + uint (md ! 23),
                 rssi = r\<rparr>
         \<and> length (canonical_uuid (take 16 (drop 4 md))) = 36"
proof -
  have l4: "4 \<le> length md" using assms(1) by simp
  have "take 2 (take 4 md) = [0x4C, 0x00]" "drop 2 (take 4 md) = [0x02, 0x15]"
    unfolding assms(2) by simp_all
  then have "take 2 md = [0x4C, 0x00]" "take 2 (drop 2 md) = [0x02, 0x15]"
    by (simp_all add: drop_take)
  then have hd: "md ! 0 = 0x4C" "md ! 1 = 0x00" "md ! 2 = 0x02" "md ! 3 = 0x15"
    unfolding frame_prefix [OF l4] by simp_all
  have hd1: "md ! Suc 0 = 0x00" using hd(2) by simp
  have sl: "slice 4 20 md = take 16 (drop 4 md)" by (simp add: slice_def)
  have len: "length (take 16 (drop 4 md)) = 16" using assms(1) by simp
  show ?thesis
    using assms(1)
    by (simp add: parseIBeaconData_def parseIBeaconData_try_def Let_def hd hd1 sl
        bytesToUUID_canonical [OF len] shl8_or_big_endian length_canonical_uuid [OF len])
qed

theorem C4_well_formed_frame_decoded_witness:
  "parseIBeaconData (Some \<lparr>advertising = Some \<lparr>manufacturerData = Some
       [0x4C, 0x00, 0x02, 0x15,
        0xE1, 0x01, 0xB3, 0x92, 0xAD, 0xA3, 0x22, 0x24,
        0x23, 0x16, 0x05, 0xEF, 0x58, 0x77, 0x49, 0x25,
        0x01, 0x02, 0xFF, 0xFE, 0xC5]\<rparr>, peripheral_rssi = Some (- 60)\<rparr>)
   = Some \<lparr>uuid = ''E101B392-ADA3-2224-2316-05EF58774925'', major = 258, minor = 65534,
           rssi = - 60\<rparr>"
  using C4_well_formed_frame_decoded [of
       "[0x4C, 0x00, 0x02, 0x15,
        0xE1, 0x01, 0xB3, 0x92, 0xAD, 0xA3, 0x22, 0x24,
        0x23, 0x16, 0x05, 0xEF, 0x58, 0x77, 0x49, 0x25,
        0x01, 0x02, 0xFF, 0xFE, 0xC5]" "- 60"]
  by (simp add: canonical_uuid_def hex_upper_def hex_pair_upper_def)

section \<open>Claims about the filter and the handler\<close>

lemma handler_unchanged_without_advertisement:
  "parseIBeaconData p = None \<Longrightarrow> handlePeripheralDiscovered e p a = a"
  by (simp add: handlePeripheralDiscovered_def split: option.splits)

lemma addBeaconRead_without_session:
  "current_item st = None \<Longrightarrow> addBeaconReadToCurrentSession e r st = Inr st"
  by (simp add: addBeaconReadToCurrentSession_def getCurrentSession_def)

lemma addBeaconRead_storage_cases:
  "addBeaconReadToCurrentSession e r st = Inr st' \<Longrightarrow>
     st' = st \<or> (\<exists>cs. current_item st = Some cs \<and>
              st' = st\<lparr>current_item := Some (cs\<lparr>beaconReads := beaconReads cs @ [r]\<rparr>)\<rparr>)"
  by (auto simp: addBeaconReadToCurrentSession_def getCurrentSession_def saveCurrentSession_def
      split: option.splits if_splits)

lemma addBeaconRead_succeeds:
  "\<not> rejects e SetItem CURRENT_SESSION \<Longrightarrow> \<exists>st'. addBeaconReadToCurrentSession e r st = Inr st'"
  by (simp add: addBeaconReadToCurrentSession_def getCurrentSession_def saveCurrentSession_def
      split: option.splits)

lemma parse_truncated: "parseIBeaconData truncated_peripheral = None"
  by (simp add: truncated_peripheral_def parseIBeaconData_def parseIBeaconData_try_def
      fixture_frame_def)

text \<open>
  C1: for a decoded advertisement and the loaded criteria, the handler goes on to record
  the observation exactly when the advertisement's UUID equals the target UUID up to
  letter case and its signal strength is at least the threshold. A strength equal to the
  threshold is accepted, one below it is rejected. (Stated for a handler with a
  registered callback whose write of the current session is not rejected: the accepted
  read then reaches the screen's list, and a rejected advertisement leaves the whole state
  as it was.)
\<close>

theorem C1_filter_accepts_iff_uuid_and_rssi:
  assumes "ble_settings a = Some criteria" and "ble_onBeaconFound a"
    and "parseIBeaconData p = Some adv"
    and "\<not> rejects e SetItem CURRENT_SESSION"
  shows "(handlePeripheralDiscovered e p a \<noteq> a) \<longleftrightarrow>
           (toLowerCase (uuid adv) = toLowerCase (targetUuid criteria) \<and>
            rssiThreshold criteria \<le> rssi adv)"
proof (cases "toLowerCase (uuid adv) = toLowerCase (targetUuid criteria) \<and>
            rssiThreshold criteria \<le> rssi adv")
  case False
  then have "handlePeripheralDiscovered e p a = a"
    using assms(1-3) by (auto simp: handlePeripheralDiscovered_def)
  with False show ?thesis by simp
next
  case True
  define r where "r = \<lparr>read_id = numberToString (clock e 0) @ ''_'' @ random36 e,
                        read_uuid = uuid adv, read_major = major adv,
                        read_minor = minor adv, read_rssi = rssi adv,
                        timestamp = clock e 1\<rparr>"
  obtain st' where st': "addBeaconReadToCurrentSession e r (storage a) = Inr st'"
    using addBeaconRead_succeeds [OF assms(4)] by blast
  have "handlePeripheralDiscovered e p a = a\<lparr>storage := st', ui_beaconReads := r # ui_beaconReads a\<rparr>"
    using assms(1-3) True st' by (simp add: handlePeripheralDiscovered_def Let_def r_def)
  then have "ui_beaconReads (handlePeripheralDiscovered e p a) \<noteq> ui_beaconReads a"
    by simp
  then have "handlePeripheralDiscovered e p a \<noteq> a" by auto
  with True show ?thesis by simp
qed

theorem C1_filter_accepts_iff_uuid_and_rssi_witness:
  "handlePeripheralDiscovered (quiet_env 2000) (fixture_peripheral (- 70)) scanning_app
     \<noteq> scanning_app \<and>
   handlePeripheralDiscovered (quiet_env 2000) (fixture_peripheral (- 71)) scanning_app
     = scanning_app \<and>
   handlePeripheralDiscovered (quiet_env 2000) (fixture_peripheral (- 30))
       (scanning_app\<lparr>ble_settings := Some \<lparr>targetUuid = ''E101B392-ADA3-2224-2316-05EF58774926'',
          rssiThreshold = - 70\<rparr>\<rparr>)
     = scanning_app\<lparr>ble_settings := Some \<lparr>targetUuid = ''E101B392-ADA3-2224-2316-05EF58774926'',
          rssiThreshold = - 70\<rparr>\<rparr>"
  using
    C1_filter_accepts_iff_uuid_and_rssi [of scanning_app
      "\<lparr>targetUuid = ''e101b392-ada3-2224-2316-05ef58774925'', rssiThreshold = - 70\<rparr>"
      "fixture_peripheral (- 70)"
      "\<lparr>uuid = ''E101B392-ADA3-2224-2316-05EF58774925'', major = 258, minor = 65534,
        rssi = - 70\<rparr>" "quiet_env 2000"]
    C1_filter_accepts_iff_uuid_and_rssi [of scanning_app
      "\<lparr>targetUuid = ''e101b392-ada3-2224-2316-05ef58774925'', rssiThreshold = - 70\<rparr>"
      "fixture_peripheral (- 71)"
      "\<lparr>uuid = ''E101B392-ADA3-2224-2316-05EF58774925'', major = 258, minor = 65534,
        rssi = - 71\<rparr>" "quiet_env 2000"]
    C1_filter_accepts_iff_uuid_and_rssi [of
      "scanning_app\<lparr>ble_settings := Some \<lparr>targetUuid = ''E101B392-ADA3-2224-2316-05EF58774926'',
          rssiThreshold = - 70\<rparr>\<rparr>"
      "\<lparr>targetUuid = ''E101B392-ADA3-2224-2316-05EF58774926'', rssiThreshold = - 70\<rparr>"
      "fixture_peripheral (- 30)"
      "\<lparr>uuid = ''E101B392-ADA3-2224-2316-05EF58774925'', major = 258, minor = 65534,
        rssi = - 30\<rparr>" "quiet_env 2000"]
  by (simp add: scanning_app_def initial_app_def parse_fixture quiet_env_def
      toLowerCase_def lower_char_def)

text \<open>
  C9: the decoder is total and raises nothing: on every peripheral, whatever the bytes
  and the signal strength, the body of the decoder completes without throwing, a
  \<open>null\<close> peripheral is answered with "not recognized", and an input that is not
  recognized leaves every part of the state as it was.
\<close>

theorem C9_decoder_never_raises:
  "(\<exists>res. parseIBeaconData_try (Some per) = Inr res \<and> parseIBeaconData (Some per) = res) \<and>
   parseIBeaconData None = None \<and>
   (parseIBeaconData p = None \<longrightarrow> handlePeripheralDiscovered e p a = a)"
proof -
  have "\<exists>res. parseIBeaconData_try (Some per) = Inr res"
    by (simp add: parseIBeaconData_try_def Let_def split: option.splits)
  then have "\<exists>res. parseIBeaconData_try (Some per) = Inr res \<and> parseIBeaconData (Some per) = res"
    by (auto simp: parseIBeaconData_def)
  moreover have "parseIBeaconData None = None"
    by (simp add: parseIBeaconData_def parseIBeaconData_try_def)
  ultimately show ?thesis
    using handler_unchanged_without_advertisement by blast
qed

theorem C9_decoder_never_raises_witness:
  "parseIBeaconData truncated_peripheral = None \<and>
   handlePeripheralDiscovered (quiet_env 2000) truncated_peripheral scanning_app = scanning_app"
  using C9_decoder_never_raises [of "the truncated_peripheral" truncated_peripheral
      "quiet_env 2000" scanning_app] parse_truncated
  by simp

text \<open>
  C10: when no current session is stored, \<open>addBeaconReadToCurrentSession\<close> completes
  without error and returns the store exactly as it was: the read is dropped and no
  session is created. The same holds for the store of a handler run in that situation.
\<close>

theorem C10_record_without_session_is_dropped:
  assumes "current_item st = None"
  shows "addBeaconReadToCurrentSession e r st = Inr st \<and>
         storage (handlePeripheralDiscovered e p (a\<lparr>storage := st\<rparr>)) = st"
proof
  show "addBeaconReadToCurrentSession e r st = Inr st"
    by (rule addBeaconRead_without_session [OF assms])
  show "storage (handlePeripheralDiscovered e p (a\<lparr>storage := st\<rparr>)) = st"
    using assms
    by (simp add: handlePeripheralDiscovered_def Let_def addBeaconRead_without_session
        split: option.splits)
qed

theorem C10_record_without_session_is_dropped_witness:
  "addBeaconReadToCurrentSession (quiet_env 2000) read_a empty_storage = Inr empty_storage \<and>
   storage (handlePeripheralDiscovered (quiet_env 2000) (fixture_peripheral (- 60))
      (scanning_app\<lparr>storage := empty_storage\<rparr>)) = empty_storage"
  using C10_record_without_session_is_dropped [of empty_storage "quiet_env 2000" read_a
      "fixture_peripheral (- 60)" scanning_app]
  by (simp add: empty_storage_def)

section \<open>Claims about the session lifecycle\<close>

lemma trim_name_x: "trim (utf16 ''x'') = utf16 ''x''"
  by (simp add: utf16_def trim_def is_space_def)

lemma trim_blank_name: "trim [0x00A0, 0x0020, 0x3000] = []"
  by (simp add: trim_def is_space_def)

lemma trim_no_break_space: "trim [0x00A0] = []"
  by (simp add: trim_def is_space_def)

text \<open>
  C7: a save issued while no session is active, or with a name that is empty or blank
  (nothing but white space, of any of the kinds \<open>trim\<close> removes), writes nothing (the
  store, and with it the saved collection and the current-session marker, are as before),
  leaves the session held in memory as it was, and reports the failed precondition with an
  error alert.
\<close>

theorem C7_save_precondition_failure:
  assumes "currentSession a = None \<or> trim (sessionName a) = []"
  shows "storage (saveSession e a) = storage a \<and>
         currentSession (saveSession e a) = currentSession a \<and>
         alerts (saveSession e a) =
           alerts a @ [(''Error'', if trim (sessionName a) = [] then ''Please enter a session name''
                                  else ''No active session to save'')]"
  using assms by (auto simp: saveSession_def alert_def)

theorem C7_save_precondition_failure_witness:
  "storage (saveSession (quiet_env 3000)
      (setSessionName (utf16 ''x'') (initial_app configured_storage))) = configured_storage \<and>
   alerts (saveSession (quiet_env 3000)
      (setSessionName (utf16 ''x'') (initial_app configured_storage)))
     = [(''Error'', ''No active session to save'')] \<and>
   storage (saveSession (quiet_env 3000)
      (setSessionName [0x00A0, 0x0020, 0x3000] (initial_app active_storage))) = active_storage \<and>
   currentSession (saveSession (quiet_env 3000)
      (setSessionName [0x00A0, 0x0020, 0x3000] (initial_app active_storage)))
     = Some active_session \<and>
   alerts (saveSession (quiet_env 3000)
      (setSessionName [0x00A0, 0x0020, 0x3000] (initial_app active_storage)))
     = [(''Error'', ''Please enter a session name'')] \<and>
   storage (saveSession (quiet_env 3000)
      (setSessionName [0x00A0] (initial_app configured_storage))) = configured_storage \<and>
   alerts (saveSession (quiet_env 3000)
      (setSessionName [0x00A0] (initial_app configured_storage)))
     = [(''Error'', ''Please enter a session name'')]"
proof -
  have x: "trim (utf16 ''x'') \<noteq> []"
    unfolding trim_name_x by (simp add: utf16_def)
  show ?thesis
    using
      C7_save_precondition_failure [of
        "setSessionName (utf16 ''x'') (initial_app configured_storage)" "quiet_env 3000"]
      C7_save_precondition_failure [of
        "setSessionName [0x00A0, 0x0020, 0x3000] (initial_app active_storage)" "quiet_env 3000"]
      C7_save_precondition_failure [of
        "setSessionName [0x00A0] (initial_app configured_storage)" "quiet_env 3000"]
    by (simp add: x trim_blank_name trim_no_break_space setSessionName_def initial_app_def
        configured_storage_def active_storage_def empty_storage_def)
qed

text \<open>
  How the lifecycle operations order the in-memory update and the persistence call: the
  save and the discard change the session held in memory only after their persistence
  calls succeeded.
\<close>

lemma saveSession_failure_keeps_memory:
  assumes "currentSession a = Some cs" and "trim (sessionName a) \<noteq> []"
    and "rejects e SetItem SESSIONS \<or> rejects e RemoveItem CURRENT_SESSION"
  shows "currentSession (saveSession e a) = currentSession a \<and>
         ui_beaconReads (saveSession e a) = ui_beaconReads a \<and>
         alerts (saveSession e a) = alerts a @ [(''Error'', ''Failed to save session'')]"
  using assms
  by (auto simp: saveSession_def storage_saveSession_def saveCurrentSession_def alert_def Let_def)

lemma clearCurrentSession_failure_keeps_memory:
  assumes "rejects e RemoveItem CURRENT_SESSION"
  shows "clearCurrentSession e a = alert ''Error'' ''Failed to clear session'' a"
  using assms by (simp add: clearCurrentSession_def saveCurrentSession_def)

lemma handler_failure_keeps_memory:
  assumes "rejects e SetItem CURRENT_SESSION" and "current_item (storage a) = Some cs"
    and "\<not> rejects e GetItem CURRENT_SESSION"
  shows "handlePeripheralDiscovered e p a = a"
  using assms
  by (simp add: handlePeripheralDiscovered_def addBeaconReadToCurrentSession_def
      getCurrentSession_def saveCurrentSession_def Let_def split: option.splits)

text \<open>
  C6, at the start operation: \<open>startScanning\<close> sets the new session in memory before it
  awaits the persistence call. When that call is rejected, the screen holds a current
  session that the store does not have; the error is reported and scanning is not started.
\<close>

theorem C6_start_advances_memory_before_persistence:
  "currentSession (startScanning (failing_env 1000) (initial_app empty_storage))
     = Some \<lparr>session_id = ''session_1000'', name = utf16 ''Session 1/1/2025, 12:00:00 PM'',
             startTime = 1001, endTime = None, beaconReads = []\<rparr> \<and>
   currentSession (initial_app empty_storage) = None \<and>
   storage (startScanning (failing_env 1000) (initial_app empty_storage)) = empty_storage \<and>
   isScanning (startScanning (failing_env 1000) (initial_app empty_storage)) = False \<and>
   alerts (startScanning (failing_env 1000) (initial_app empty_storage))
     = [(''Error'', ''Failed to start scanning'')]"
proof -
  have n: "numberToString 1000 = ''1000''"
    by code_simp
  show ?thesis
    by (simp add: startScanning_def failing_env_def quiet_env_def initial_app_def
        empty_storage_def saveCurrentSession_def alert_def Let_def n utf16_def)
qed

lemma handler_keeps_currentSession:
  "currentSession (handlePeripheralDiscovered e p a) = currentSession a"
  by (simp add: handlePeripheralDiscovered_def Let_def split: option.splits sum.splits)

lemma saveSession_writes_memory_copy:
  assumes "currentSession a = Some cs" and "trim (sessionName a) \<noteq> []"
    and "\<not> rejects e SetItem SESSIONS" and "\<not> rejects e GetItem SESSIONS"
    and "sessions_item (storage a) = None"
  shows "sessions_item (storage (saveSession e a))
           = Some [cs\<lparr>name := trim (sessionName a), endTime := Some (clock e 0)\<rparr>]"
  using assms
  by (auto simp: saveSession_def storage_saveSession_def getSessions_def saveCurrentSession_def
      alert_def Let_def)

text \<open>
  C5, evaluated: a session is started, one accepted read is recorded, and the session is
  saved as "x". The read is in the stored current session before the save. The saved
  collection then holds exactly one session, named "x", with an end time not before its
  start time, and no current session remains; but its \<open>beaconReads\<close> is empty, since
  \<open>saveSession\<close> writes the copy of the session that the screen has held since the
  start, which the recorded reads never reach.
\<close>

theorem C5_saved_session_misses_recorded_reads:
  "map_option beaconReads (current_item (storage
      (handlePeripheralDiscovered (quiet_env 2000) (fixture_peripheral (- 60))
        (startScanning (quiet_env 1000) (initial_app configured_storage)))))
     = Some [\<lparr>read_id = ''2000_k3j9x0a1b'', read_uuid = ''E101B392-ADA3-2224-2316-05EF58774925'',
              read_major = 258, read_minor = 65534, read_rssi = - 60, timestamp = 2001\<rparr>] \<and>
   storage (saveSession (quiet_env 3000) (setSessionName (utf16 ''x'')
      (handlePeripheralDiscovered (quiet_env 2000) (fixture_peripheral (- 60))
        (startScanning (quiet_env 1000) (initial_app configured_storage)))))
     = configured_storage
         \<lparr>sessions_item := Some [\<lparr>session_id = ''session_1000'', name = utf16 ''x'',
             startTime = 1001, endTime = Some 3000, beaconReads = []\<rparr>],
          current_item := None\<rparr>"
proof -
  have n: "numberToString 1000 = ''1000''" "numberToString 2000 = ''2000''"
    by code_simp+
  have t: "trim (utf16 ''x'') = utf16 ''x''" "utf16 ''x'' \<noteq> []"
    by (simp_all add: trim_name_x) (simp add: utf16_def)
  have low: "toLowerCase ''E101B392-ADA3-2224-2316-05EF58774925''
               = ''e101b392-ada3-2224-2316-05ef58774925''"
    by (simp add: toLowerCase_def lower_char_def)
  define a1 where "a1 = startScanning (quiet_env 1000) (initial_app configured_storage)"
  have a1: "a1 = (initial_app configured_storage)
      \<lparr>storage := configured_storage\<lparr>current_item := Some active_session\<rparr>,
       ble_isScanning := True,
       ble_settings := Some \<lparr>targetUuid = ''E101B392-ADA3-2224-2316-05EF58774925'',
                              rssiThreshold = - 70\<rparr>,
       ble_listeners := 1, isScanning := True, currentSession := Some active_session\<rparr>"
    unfolding a1_def
    by (simp add: startScanning_def ble_startScanning_def getSettings_def quiet_env_def
        initial_app_def configured_storage_def empty_storage_def saveCurrentSession_def
        active_session_def Let_def n utf16_def)
  define a2 where "a2 = handlePeripheralDiscovered (quiet_env 2000) (fixture_peripheral (- 60)) a1"
  have a2: "a2 = a1
      \<lparr>storage := configured_storage\<lparr>current_item := Some (active_session\<lparr>beaconReads :=
           [\<lparr>read_id = ''2000_k3j9x0a1b'', read_uuid = ''E101B392-ADA3-2224-2316-05EF58774925'',
             read_major = 258, read_minor = 65534, read_rssi = - 60, timestamp = 2001\<rparr>]\<rparr>)\<rparr>,
       ui_beaconReads :=
           [\<lparr>read_id = ''2000_k3j9x0a1b'', read_uuid = ''E101B392-ADA3-2224-2316-05EF58774925'',
             read_major = 258, read_minor = 65534, read_rssi = - 60, timestamp = 2001\<rparr>]\<rparr>"
    unfolding a2_def a1
    by (simp add: handlePeripheralDiscovered_def parse_fixture low
        addBeaconReadToCurrentSession_def getCurrentSession_def saveCurrentSession_def
        quiet_env_def initial_app_def configured_storage_def empty_storage_def
        active_session_def Let_def n)
  have a3: "storage (saveSession (quiet_env 3000) (setSessionName (utf16 ''x'') a2))
      = configured_storage
         \<lparr>sessions_item := Some [\<lparr>session_id = ''session_1000'', name = utf16 ''x'',
             startTime = 1001, endTime = Some 3000, beaconReads = []\<rparr>],
          current_item := None\<rparr>"
    unfolding a2 a1
    by (simp add: saveSession_def setSessionName_def storage_saveSession_def getSessions_def
        saveCurrentSession_def alert_def quiet_env_def initial_app_def configured_storage_def
        empty_storage_def active_session_def Let_def t)
  have "map_option beaconReads (current_item (storage a2))
     = Some [\<lparr>read_id = ''2000_k3j9x0a1b'', read_uuid = ''E101B392-ADA3-2224-2316-05EF58774925'',
              read_major = 258, read_minor = 65534, read_rssi = - 60, timestamp = 2001\<rparr>]"
    unfolding a2 by (simp add: active_session_def)
  with a3 show ?thesis
    unfolding a2_def a1_def by simp
qed

section \<open>Claims about the default criteria\<close>

lemma toLowerCase_length: "length (toLowerCase s) = length s"
  by (simp add: toLowerCase_def)

lemma parsed_uuid_length:
  assumes "parseIBeaconData p = Some bd"
  shows "length (uuid bd) = 36"
proof -
  obtain md where md: "25 \<le> length md" "uuid bd = bytesToUUID (slice 4 20 md)"
    using parse_fields [OF assms] by auto
  have "length (slice 4 20 md) = 16" using md(1) by (simp add: slice_def)
  then show ?thesis
    by (simp add: md(2) bytesToUUID_canonical length_canonical_uuid)
qed

text \<open>With the default criteria no advertisement passes the UUID comparison.\<close>

lemma default_criteria_accept_nothing:
  assumes "ble_settings a = Some (getSettings e empty_storage)"
  shows "handlePeripheralDiscovered e' p a = a"
proof (cases "parseIBeaconData p")
  case None
  then show ?thesis by (rule handler_unchanged_without_advertisement)
next
  case (Some bd)
  have t: "targetUuid (getSettings e empty_storage) = ''E101B392ADA32224231605EF58774925''"
    by (simp add: getSettings_def empty_storage_def)
  have "length (toLowerCase (uuid bd)) = 36"
    using parsed_uuid_length [OF Some] by (simp add: toLowerCase_length)
  moreover have "length (toLowerCase (targetUuid (getSettings e empty_storage))) = 32"
    unfolding t toLowerCase_length by simp
  ultimately have "toLowerCase (uuid bd) \<noteq> toLowerCase (targetUuid (getSettings e empty_storage))"
    by auto
  then show ?thesis
    using assms Some by (simp add: handlePeripheralDiscovered_def)
qed

text \<open>
  C2, evaluated: with nothing stored, \<open>getSettings\<close> returns the threshold -70 and the
  target UUID E101B392ADA32224231605EF58774925, 32 hexadecimal digits without hyphens.
  This is not the hyphenated string, and \<open>isValidUUID\<close>, the check the settings screen
  applies before it stores criteria, rejects it.
\<close>

theorem C2_default_uuid_is_not_canonical:
  "getSettings (quiet_env 0) empty_storage
     = \<lparr>targetUuid = ''E101B392ADA32224231605EF58774925'', rssiThreshold = - 70\<rparr> \<and>
   targetUuid (getSettings (quiet_env 0) empty_storage) \<noteq> ''E101B392-ADA3-2224-2316-05EF58774925'' \<and>
   isValidUUID (targetUuid (getSettings (quiet_env 0) empty_storage)) = False \<and>
   isValidUUID ''E101B392-ADA3-2224-2316-05EF58774925'' = True"
  by (simp add: getSettings_def quiet_env_def empty_storage_def isValidUUID_def is_hex_char_def)

section \<open>Claims about overlapping records\<close>

lemma run_schedule_append:
  "run_schedule e rs (xs @ ys) (pcs, st) = run_schedule e rs ys (run_schedule e rs xs (pcs, st))"
proof (induction xs arbitrary: pcs st)
  case Nil
  then show ?case by simp
next
  case (Cons i xs)
  then show ?case by (simp split: prod.splits)
qed

lemma sequential_Suc: "sequential (Suc k) = sequential k @ [k, k]"
  by (simp add: sequential_def)

lemma finished_prefix_update:
  assumes "k < n"
  shows "(replicate k Finished @ replicate (n - k) Pending)[k := Finished]
           = replicate (Suc k) Finished @ replicate (n - Suc k) Pending"
proof -
  from assms obtain m where m: "n - k = Suc m" "n - Suc k = m"
    by (cases "n - k") auto
  show ?thesis
    by (simp add: m list_update_append replicate_append_same)
qed

text \<open>One call run without interruption is \<open>addBeaconReadToCurrentSession\<close>.\<close>

lemma two_steps_are_one_call:
  assumes "record_step e r Pending st = (pc1, st1)" and "record_step e r pc1 st1 = (pc2, st2)"
  shows "pc2 = Finished \<and>
         st2 = (case addBeaconReadToCurrentSession e r st of Inl err \<Rightarrow> st | Inr st' \<Rightarrow> st')"
  using assms
  by (cases "getCurrentSession e st")
     (auto simp: addBeaconReadToCurrentSession_def split: sum.splits)

lemma sequential_prefix:
  assumes "\<not> rejects e GetItem CURRENT_SESSION" and "\<not> rejects e SetItem CURRENT_SESSION"
    and "current_item st = Some cs" and "k \<le> length rs"
  shows "run_schedule e rs (sequential k) (replicate (length rs) Pending, st)
           = (replicate k Finished @ replicate (length rs - k) Pending,
              st\<lparr>current_item := Some (cs\<lparr>beaconReads := beaconReads cs @ take k rs\<rparr>)\<rparr>)"
  using assms(4)
proof (induction k)
  case 0
  then show ?case using assms(3) by (simp add: sequential_def)
next
  case (Suc k)
  then have k: "k < length rs" by simp
  have at: "(replicate k Finished @ replicate (length rs - k) Pending) ! k = Pending"
    using k by (simp add: nth_append)
  have upd: "(replicate k Finished @ replicate (length rs - k) Pending)[k := Fetched x] ! k = Fetched x"
    for x using k by simp
  have upd2: "(replicate k Finished @ replicate (length rs - k) Pending)[k := Fetched x, k := Finished]
        = replicate (Suc k) Finished @ replicate (length rs - Suc k) Pending" for x
    using finished_prefix_update [OF k] by simp
  have ih: "run_schedule e rs (sequential k) (replicate (length rs) Pending, st)
           = (replicate k Finished @ replicate (length rs - k) Pending,
              st\<lparr>current_item := Some (cs\<lparr>beaconReads := beaconReads cs @ take k rs\<rparr>)\<rparr>)"
    using Suc by simp
  show ?case
    unfolding sequential_Suc run_schedule_append ih
    using k assms(1,2)
    by (simp add: at upd upd2 finished_prefix_update [OF k] getCurrentSession_def
        saveCurrentSession_def take_Suc_conv_app_nth)
qed

text \<open>
  C8 as stated, refuted: two calls on an active session whose accesses interleave as
  read, read, write, write both finish, and the stored session holds one read, the
  second call's, instead of both.
\<close>

theorem C8_overlapping_records_lose_a_read:
  "fst (run_schedule (quiet_env 2000) [read_a, read_b] [0, 1, 0, 1]
          ([Pending, Pending], active_storage)) = [Finished, Finished] \<and>
   map_option beaconReads (current_item (snd (run_schedule (quiet_env 2000) [read_a, read_b]
          [0, 1, 0, 1] ([Pending, Pending], active_storage)))) = Some [read_b] \<and>
   length [read_b] \<noteq> length [read_a, read_b]"
  by (simp add: quiet_env_def active_storage_def active_session_def empty_storage_def
      getCurrentSession_def saveCurrentSession_def)

text \<open>
  C8, amended: when the calls run one after another, each finishing its read and its
  write before the next starts, and no storage call is rejected, every call finishes and
  the stored session's reads are the earlier ones followed by all K reads in arrival
  order.
\<close>

theorem C8_sequential_records_keep_all_reads:
  assumes "\<not> rejects e GetItem CURRENT_SESSION" and "\<not> rejects e SetItem CURRENT_SESSION"
    and "current_item st = Some cs"
  shows "run_schedule e rs (sequential (length rs)) (replicate (length rs) Pending, st)
           = (replicate (length rs) Finished,
              st\<lparr>current_item := Some (cs\<lparr>beaconReads := beaconReads cs @ rs\<rparr>)\<rparr>)"
  using sequential_prefix [OF assms, of "length rs" rs] by simp

theorem C8_sequential_records_keep_all_reads_witness:
  "run_schedule (quiet_env 2000) [read_a, read_b] (sequential 2)
      ([Pending, Pending], active_storage)
     = ([Finished, Finished],
        active_storage\<lparr>current_item := Some (active_session\<lparr>beaconReads := [read_a, read_b]\<rparr>)\<rparr>)"
  using C8_sequential_records_keep_all_reads [of "quiet_env 2000" active_storage active_session
      "[read_a, read_b]"]
  by (simp add: quiet_env_def active_storage_def active_session_def numeral_2_eq_2)

end
